theory Spec2Isabelle
  imports Complex_Main "HOL-Library.Sublist"
begin

text \<open>
  A shallow embedding of the chain-access code of tama-tools (TypeScript on ethers.js):
  the creation-block locator, the metadata reader in its shipped and its rewritten
  form, the error classifiers, the two copies of the token-creation call, and the price
  helper. Asynchronous calls are awaited one after the other in the source, so each
  function is modelled as a sequential computation that returns its outcome together
  with the history of the external calls it made. Logging is left out.
\<close>

section \<open>Thrown values and the chain-query capability\<close>

text \<open>
  A JavaScript \<^verbatim>\<open>throw\<close> (or a rejected promise that is awaited) is the left
  summand of a result. \<open>Error msg\<close> is \<^verbatim>\<open>new Error(msg)\<close>; failures of the
  RPC transport are values of the same type.
\<close>

datatype exn = Error string | TypeError string | RangeError string

text \<open>
  The ethers provider is an external collaborator. Every call the code makes to it is
  appended to a history of requests, and the provider's answer may depend on everything
  that was asked before: this covers any deterministic backend, however it behaves from
  one call to the next. Block numbers are JavaScript numbers holding integers and are
  modelled as \<open>int\<close>. A block tag of \<open>None\<close> is an omitted argument, which ethers
  reads as the latest block.
\<close>

record TokenCreatedArgs =
  name :: string
  symbol :: string
  description :: string
  extended :: string
  tokenUrlImage :: string

record event =
  blockNumber :: int
  args :: "TokenCreatedArgs option"

datatype request =
    GetBlockNumber
  | GetCode string "int option"
  | QueryFilter int "int option"

record provider =
  blockNumberAt :: "request list \<Rightarrow> exn + int"
  codeAt :: "request list \<Rightarrow> string \<Rightarrow> int option \<Rightarrow> exn + string"
  eventsAt :: "request list \<Rightarrow> int \<Rightarrow> int option \<Rightarrow> exn + event list"

definition getBlockNumber :: "provider \<Rightarrow> request list \<Rightarrow> (exn + int) \<times> request list" where
  "getBlockNumber p hist = (blockNumberAt p hist, hist @ [GetBlockNumber])"

definition getCode ::
  "provider \<Rightarrow> string \<Rightarrow> int option \<Rightarrow> request list \<Rightarrow> (exn + string) \<times> request list" where
  "getCode p tokenAddress blockTag hist =
     (codeAt p hist tokenAddress blockTag, hist @ [GetCode tokenAddress blockTag])"

definition queryFilter ::
  "provider \<Rightarrow> int \<Rightarrow> int option \<Rightarrow> request list \<Rightarrow> (exn + event list) \<times> request list" where
  "queryFilter p fromBlock toBlock hist =
     (eventsAt p hist fromBlock toBlock, hist @ [QueryFilter fromBlock toBlock])"

section \<open>Creation-block locator\<close>

text \<open>
  \<^verbatim>\<open>findTokenCreationBlock\<close> (token-find-creation-block.ts and
  test-token-info-optimized.ts, the same code twice). The three loop variables are the
  fields of \<open>search\<close>; \<open>foundBlock = None\<close> is \<^verbatim>\<open>null\<close>.
\<close>

record search =
  lowBlock :: int
  highBlock :: int
  foundBlock :: "int option"

text \<open>
  JavaScript numbers are IEEE doubles. The loop variables hold integers, and a double
  that holds an integer is modelled by that integer; \<open>roundDouble n\<close> is the double
  nearest to the exact integer \<open>n\<close>, ties going to the even significand, so that
  \<^verbatim>\<open>a + b\<close> on such doubles is \<open>roundDouble (a + b)\<close>. \<open>ulp n\<close> is the spacing of
  the doubles around \<open>n\<close>: 1 below \<open>2^53\<close> and doubling with every further binade.
  (Overflow to \<^verbatim>\<open>Infinity\<close>, which begins near \<open>2^1024\<close>, is outside this model.) Halving a
  double and \<^verbatim>\<open>Math.floor\<close> are exact.
\<close>

fun ulp :: "nat \<Rightarrow> nat" where
  "ulp n = (if n < 2 ^ 53 then 1 else 2 * ulp (n div 2))"

declare ulp.simps [simp del]

definition roundNat :: "nat \<Rightarrow> nat" where
  "roundNat n =
     (let u = ulp n; q = n div u; r = n mod u
      in if 2 * r < u \<or> (2 * r = u \<and> even q) then q * u else (q + 1) * u)"

definition roundDouble :: "int \<Rightarrow> int" where
  "roundDouble i = (if i < 0 then - int (roundNat (nat (- i))) else int (roundNat (nat i)))"

text \<open>
  One run of the loop body: \<^verbatim>\<open>midBlock = Math.floor((lowBlock + highBlock) / 2)\<close>,
  one probe, and the update of the bounds by \<^verbatim>\<open>midBlock + 1\<close> or
  \<^verbatim>\<open>midBlock - 1\<close>, each sum rounded as a double. The inner \<^verbatim>\<open>catch\<close> treats
  a failed probe like absent code.
\<close>

definition probeStep ::
  "provider \<Rightarrow> string \<Rightarrow> search \<times> request list \<Rightarrow> search \<times> request list" where
  "probeStep p tokenAddress st =
     (let s = fst st;
          midBlock = roundDouble (lowBlock s + highBlock s) div 2;
          answer = getCode p tokenAddress (Some midBlock) (snd st)
      in (case fst answer of
            Inr codeAtBlock \<Rightarrow>
              if codeAtBlock = ''0x''
              then s\<lparr>lowBlock := roundDouble (midBlock + 1)\<rparr>
              else s\<lparr>foundBlock := Some midBlock, highBlock := roundDouble (midBlock - 1)\<rparr>
          | Inl error \<Rightarrow> s\<lparr>lowBlock := roundDouble (midBlock + 1)\<rparr>,
          snd answer))"

text \<open>
  \<^verbatim>\<open>while (lowBlock <= highBlock) { ... }\<close>. The loop is defined as a partial
  function: \<open>None\<close> would be a run that never leaves the loop.
\<close>

partial_function (option) searchLoop ::
  "provider \<Rightarrow> string \<Rightarrow> search \<times> request list \<Rightarrow> (search \<times> request list) option" where
  "searchLoop p tokenAddress st =
     (if lowBlock (fst st) \<le> highBlock (fst st)
      then searchLoop p tokenAddress (probeStep p tokenAddress st)
      else Some st)"

declare searchLoop.simps [code]

definition findTokenCreationBlock ::
  "provider \<Rightarrow> string \<Rightarrow> request list \<Rightarrow> ((exn + int) \<times> request list) option" where
  "findTokenCreationBlock p tokenAddress hist =
     (case getCode p tokenAddress None hist of
        (Inl e, hist1) \<Rightarrow> Some (Inl e, hist1)
      | (Inr code, hist1) \<Rightarrow>
          if code = ''0x'' then Some (Inl (Error ''Address is not a contract''), hist1)
          else
            (case getBlockNumber p hist1 of
               (Inl e, hist2) \<Rightarrow> Some (Inl e, hist2)
             | (Inr latest, hist2) \<Rightarrow>
                 (case searchLoop p tokenAddress
                         (\<lparr>lowBlock = 0, highBlock = latest, foundBlock = None\<rparr>, hist2) of
                    None \<Rightarrow> None
                  | Some (s, hist3) \<Rightarrow>
                      (case foundBlock s of
                         None \<Rightarrow> Some (Inl (Error ''Could not determine creation block''), hist3)
                       | Some b \<Rightarrow> Some (Inr b, hist3)))))"

text \<open>
  A synthetic provider for a static chain whose head is \<open>latestBlock\<close> and where
  \<open>hasCode b\<close> tells whether the address holds bytecode at block \<open>b\<close>.
\<close>

definition oracleProvider :: "int \<Rightarrow> (int \<Rightarrow> bool) \<Rightarrow> provider" where
  "oracleProvider latestBlock hasCode =
     \<lparr>blockNumberAt = (\<lambda>hist. Inr latestBlock),
      codeAt = (\<lambda>hist tokenAddress blockTag.
         Inr (if hasCode (case blockTag of None \<Rightarrow> latestBlock | Some b \<Rightarrow> b)
              then ''0x6080604052'' else ''0x'')),
      eventsAt = (\<lambda>hist fromBlock toBlock. Inr [])\<rparr>"

text \<open>A provider whose every code probe fails (each \<^verbatim>\<open>getCode\<close> call rejects).\<close>

definition failingProvider :: provider where
  "failingProvider =
     \<lparr>blockNumberAt = (\<lambda>hist. Inr 10),
      codeAt = (\<lambda>hist tokenAddress blockTag. Inl (Error ''timeout'')),
      eventsAt = (\<lambda>hist fromBlock toBlock. Inr [])\<rparr>"

text \<open>
  A provider at head \<open>2^53\<close> for an address that holds code at the latest block, and
  whose every probe of a numbered block fails.
\<close>

definition timeoutProvider :: provider where
  "timeoutProvider =
     \<lparr>blockNumberAt = (\<lambda>hist. Inr 9007199254740992),
      codeAt = (\<lambda>hist tokenAddress blockTag.
         case blockTag of None \<Rightarrow> Inr ''0x6080604052'' | Some b \<Rightarrow> Inl (Error ''timeout'')),
      eventsAt = (\<lambda>hist fromBlock toBlock. Inr [])\<rparr>"

section \<open>Token metadata from the creation event\<close>

text \<open>
  \<^verbatim>\<open>TokenMetadata\<close> of getTokenInfo.ts. The fields of the event's
  \<^verbatim>\<open>args\<close> are those of \<open>TokenCreatedArgs\<close> above; \<open>args = None\<close> is an
  event object without \<^verbatim>\<open>args\<close> (a log that ethers could not decode).
\<close>

record TokenMetadata =
  name :: string
  symbol :: string
  description :: string
  extended :: string
  imageUrl :: string

text \<open>
  \<^verbatim>\<open>getTokenMetadata\<close> as shipped in getTokenInfo.ts. The contract instance and
  the \<^verbatim>\<open>TokenCreated(null, tokenAddress)\<close> filter are fixed by the caller's
  network choice and the token address; the provider's \<open>eventsAt\<close> answers for that
  filter. \<^verbatim>\<open>queryFilter(filter, fromBlock)\<close> omits \<^verbatim>\<open>toBlock\<close>.
\<close>

definition getTokenMetadata ::
  "provider \<Rightarrow> string \<Rightarrow> request list \<Rightarrow> (exn + TokenMetadata) \<times> request list" where
  "getTokenMetadata p tokenAddress hist =
     (case getBlockNumber p hist of
        (Inl e, hist1) \<Rightarrow> (Inl e, hist1)
      | (Inr currentBlock, hist1) \<Rightarrow>
          let fromBlock = max 0 (currentBlock - 10000) in
          (case queryFilter p fromBlock None hist1 of
             (Inl e, hist2) \<Rightarrow> (Inl e, hist2)
           | (Inr events, hist2) \<Rightarrow>
               if length events = 0
               then (Inl (Error (''No creation event found for token: '' @ tokenAddress)), hist2)
               else
                 let creationEvent = events ! (length events - 1) in
                 (case args creationEvent of
                    None \<Rightarrow>
                      (Inl (Error (''Creation event for token '' @ tokenAddress
                                     @ '' has no arguments'')), hist2)
                  | Some a \<Rightarrow>
                      (Inr \<lparr>name = TokenCreatedArgs.name a,
                            symbol = TokenCreatedArgs.symbol a,
                            description = TokenCreatedArgs.description a,
                            extended = TokenCreatedArgs.extended a,
                            imageUrl = tokenUrlImage a\<rparr>, hist2))))"

text \<open>
  \<^verbatim>\<open>getTokenMetadata\<close> as rewritten in proposed-updates.md, with the optional
  \<^verbatim>\<open>fromBlock\<close> parameter (\<open>None\<close> is \<^verbatim>\<open>undefined\<close>) and the clamped
  \<^verbatim>\<open>toBlock\<close>.
\<close>

definition getTokenMetadata_proposed ::
  "provider \<Rightarrow> string \<Rightarrow> int option \<Rightarrow> request list
     \<Rightarrow> (exn + TokenMetadata) \<times> request list" where
  "getTokenMetadata_proposed p tokenAddress fromBlockArg hist =
     (case getBlockNumber p hist of
        (Inl e, hist1) \<Rightarrow> (Inl e, hist1)
      | (Inr currentBlock, hist1) \<Rightarrow>
          let fromBlock = (case fromBlockArg of
                             None \<Rightarrow> max 0 (currentBlock - 499)
                           | Some b \<Rightarrow> b);
              toBlock = min currentBlock (fromBlock + 499)
          in
          (case queryFilter p fromBlock (Some toBlock) hist1 of
             (Inl e, hist2) \<Rightarrow> (Inl e, hist2)
           | (Inr events, hist2) \<Rightarrow>
               if length events = 0
               then
                 (if fromBlock > 0
                  then (Inl (Error (''No creation event found for token '' @ tokenAddress
                          @ '' in the specified block range. Consider using an earlier fromBlock value or implementing pagination for larger ranges.'')), hist2)
                  else (Inl (Error (''No creation event found for token: '' @ tokenAddress)), hist2))
               else
                 let creationEvent = events ! (length events - 1) in
                 (case args creationEvent of
                    None \<Rightarrow>
                      (Inl (Error (''Creation event for token '' @ tokenAddress
                                     @ '' has no arguments'')), hist2)
                  | Some a \<Rightarrow>
                      (Inr \<lparr>name = TokenCreatedArgs.name a,
                            symbol = TokenCreatedArgs.symbol a,
                            description = TokenCreatedArgs.description a,
                            extended = TokenCreatedArgs.extended a,
                            imageUrl = tokenUrlImage a\<rparr>, hist2))))"

text \<open>
  The mapping from event arguments to metadata that both versions end with.
\<close>

definition metadataOf :: "TokenCreatedArgs \<Rightarrow> TokenMetadata" where
  "metadataOf a =
     \<lparr>name = TokenCreatedArgs.name a,
      symbol = TokenCreatedArgs.symbol a,
      description = TokenCreatedArgs.description a,
      extended = TokenCreatedArgs.extended a,
      imageUrl = tokenUrlImage a\<rparr>"

text \<open>
  A fake backend: a static chain with head \<open>latestBlock\<close> whose matching events are
  \<open>chainEvents\<close>; a query answers with the events of the requested block range, in
  chain order. \<open>eventsInRange chainEvents a b\<close> is the single unchunked query over
  \<open>[a, b]\<close>.
\<close>

definition eventsInRange :: "event list \<Rightarrow> int \<Rightarrow> int \<Rightarrow> event list" where
  "eventsInRange chainEvents fromBlock toBlock =
     filter (\<lambda>e. fromBlock \<le> blockNumber e \<and> blockNumber e \<le> toBlock) chainEvents"

definition fakeBackend :: "int \<Rightarrow> event list \<Rightarrow> provider" where
  "fakeBackend latestBlock chainEvents =
     \<lparr>blockNumberAt = (\<lambda>hist. Inr latestBlock),
      codeAt = (\<lambda>hist tokenAddress blockTag. Inr ''0x''),
      eventsAt = (\<lambda>hist fromBlock toBlock.
         Inr (eventsInRange chainEvents fromBlock
                (case toBlock of None \<Rightarrow> latestBlock | Some t \<Rightarrow> t)))\<rparr>"

text \<open>
  The event queries found in a request history, the number of blocks one of them spans
  on a chain with the given head, and the concatenation of what the fake backend
  answers to them.
\<close>

fun queriesIssued :: "request list \<Rightarrow> (int \<times> int option) list" where
  "queriesIssued [] = []"
| "queriesIssued (QueryFilter fromBlock toBlock # rs) = (fromBlock, toBlock) # queriesIssued rs"
| "queriesIssued (r # rs) = queriesIssued rs"

definition blocksSpanned :: "int \<Rightarrow> int \<times> int option \<Rightarrow> int" where
  "blocksSpanned latestBlock q =
     (case snd q of None \<Rightarrow> latestBlock | Some t \<Rightarrow> t) - fst q + 1"


text \<open>Two creation events' arguments used in the concrete examples.\<close>

definition mochi :: TokenCreatedArgs where
  "mochi = \<lparr>TokenCreatedArgs.name = ''Mochi Inu'', symbol = ''MINU'', description = ''d'',
            extended = ''{}'', tokenUrlImage = ''ipfs://x''\<rparr>"

definition inu :: TokenCreatedArgs where
  "inu = \<lparr>TokenCreatedArgs.name = ''Rakun Inu'', symbol = ''TANUKI'', description = ''e'',
            extended = ''{}'', tokenUrlImage = ''ipfs://y''\<rparr>"

section \<open>Error classification\<close>

text \<open>The enum and the error class of errorHandling.ts.\<close>

datatype TokenCreationErrorType =
    UPLOAD_FAILED
  | AUTHENTICATION_ERROR
  | INSUFFICIENT_FUNDS
  | TRANSACTION_FAILED
  | CONTRACT_ERROR
  | USER_REJECTED
  | NETWORK_ERROR
  | UNKNOWN_ERROR

text \<open>
  The classifiers take \<^verbatim>\<open>error: any\<close>. The values modelled are the primitives
  \<^verbatim>\<open>undefined\<close>, \<^verbatim>\<open>null\<close>, booleans, integer numbers and strings, and objects
  of which only the two properties the classifiers read are kept: \<open>JObj m st\<close> has
  the \<^verbatim>\<open>message\<close> property \<open>m\<close> (\<open>JUndefined\<close> when it has none) and the
  \<^verbatim>\<open>status\<close> property \<open>st\<close>, an integer number or absent. Arrays, functions,
  non-integer numbers and objects with accessors are outside this type.
\<close>

datatype jsval =
    JUndefined
  | JNull
  | JBool bool
  | JNum int
  | JStr string
  | JObj jsval "int option"

record TokenCreationError =
  type :: TokenCreationErrorType
  message :: string
  originalError :: jsval

text \<open>
  \<^verbatim>\<open>error?.message\<close>, \<^verbatim>\<open>error?.status\<close>, JavaScript truthiness, and
  \<^verbatim>\<open>a || b\<close>. Reading a property of \<^verbatim>\<open>undefined\<close> or \<^verbatim>\<open>null\<close> through
  \<^verbatim>\<open>?.\<close>, or a property a primitive does not have, gives \<^verbatim>\<open>undefined\<close>.
\<close>

fun messageOf :: "jsval \<Rightarrow> jsval" where
  "messageOf (JObj m st) = m"
| "messageOf v = JUndefined"

fun statusOf :: "jsval \<Rightarrow> int option" where
  "statusOf (JObj m st) = st"
| "statusOf v = None"

fun truthy :: "jsval \<Rightarrow> bool" where
  "truthy JUndefined = False"
| "truthy JNull = False"
| "truthy (JBool b) = b"
| "truthy (JNum n) = (n \<noteq> 0)"
| "truthy (JStr s) = (s \<noteq> [])"
| "truthy (JObj m st) = True"

definition js_or :: "jsval \<Rightarrow> jsval \<Rightarrow> jsval" where
  "js_or a b = (if truthy a then a else b)"

text \<open>
  \<^verbatim>\<open>String.prototype.includes\<close>: the search string occurs as a contiguous part.
\<close>

definition str_includes :: "string \<Rightarrow> string \<Rightarrow> bool" where
  "str_includes s searchString = sublist searchString s"

text \<open>
  \<^verbatim>\<open>parseBlockchainError\<close>. The first thing done with \<^verbatim>\<open>errorMessage\<close> is the
  call \<^verbatim>\<open>errorMessage.includes(...)\<close>; a truthy value that is not a string has no
  such method, and the call throws a \<^verbatim>\<open>TypeError\<close>.
\<close>

definition parseBlockchainError :: "jsval \<Rightarrow> exn + TokenCreationError" where
  "parseBlockchainError error =
     (case js_or (messageOf error) (JStr '''') of
        JStr errorMessage \<Rightarrow>
          Inr (if str_includes errorMessage ''insufficient funds''
               then \<lparr>type = INSUFFICIENT_FUNDS,
                     message = ''You do not have enough RON to complete this transaction. Make sure you have enough for gas fees plus the creation fee and initial liquidity.'',
                     originalError = error\<rparr>
               else if str_includes errorMessage ''user rejected'' \<or> str_includes errorMessage ''User denied''
               then \<lparr>type = USER_REJECTED,
                     message = ''You rejected the transaction in your wallet. Please try again and approve the transaction.'',
                     originalError = error\<rparr>
               else if str_includes errorMessage ''network'' \<or> str_includes errorMessage ''timeout''
               then \<lparr>type = NETWORK_ERROR,
                     message = ''Network error occurred. Please check your internet connection and try again.'',
                     originalError = error\<rparr>
               else if str_includes errorMessage ''InsufficientOutput''
                       \<or> str_includes errorMessage ''InvalidAmountIn''
               then \<lparr>type = CONTRACT_ERROR,
                     message = ''Invalid initial amount. Please make sure you are providing a valid amount for initial liquidity.'',
                     originalError = error\<rparr>
               else if str_includes errorMessage ''InvalidTokenMetadata''
               then \<lparr>type = CONTRACT_ERROR,
                     message = ''Invalid token metadata. Please check that all token details (name, symbol, etc.) are properly formatted.'',
                     originalError = error\<rparr>
               else \<lparr>type = UNKNOWN_ERROR,
                     message = ''An unexpected error occurred: '' @ errorMessage,
                     originalError = error\<rparr>)
      | notAString \<Rightarrow> Inl (TypeError ''errorMessage.includes is not a function''))"

text \<open>
  \<^verbatim>\<open>parseUploadError\<close>. \<^verbatim>\<open>status\<close> is \<^verbatim>\<open>error?.status || 0\<close>. In the first
  condition \<^verbatim>\<open>||\<close> short-circuits: with status 401 or 403 the message is never
  touched.
\<close>

definition parseUploadError :: "jsval \<Rightarrow> exn + TokenCreationError" where
  "parseUploadError error =
     (let status = (case statusOf error of None \<Rightarrow> 0 | Some n \<Rightarrow> if n \<noteq> 0 then n else 0)
      in if status = 401 \<or> status = 403
         then Inr \<lparr>type = AUTHENTICATION_ERROR,
                   message = ''Authentication failed. Please make sure you are logged in to tama.meme.'',
                   originalError = error\<rparr>
         else
           (case js_or (messageOf error) (JStr '''') of
              JStr errorMessage \<Rightarrow>
                Inr (if str_includes errorMessage ''unauthorized''
                     then \<lparr>type = AUTHENTICATION_ERROR,
                           message = ''Authentication failed. Please make sure you are logged in to tama.meme.'',
                           originalError = error\<rparr>
                     else if status = 413 \<or> str_includes errorMessage ''too large''
                     then \<lparr>type = UPLOAD_FAILED,
                           message = ''Image file is too large. Please use an image smaller than 1MB.'',
                           originalError = error\<rparr>
                     else if str_includes errorMessage ''network'' \<or> status = 0 \<or> status \<ge> 500
                     then \<lparr>type = NETWORK_ERROR,
                           message = ''Network error during upload. Please check your internet connection and try again.'',
                           originalError = error\<rparr>
                     else \<lparr>type = UPLOAD_FAILED,
                           message = ''Failed to upload image: '' @ errorMessage,
                           originalError = error\<rparr>)
            | notAString \<Rightarrow> Inl (TypeError ''errorMessage.includes is not a function'')))"

section \<open>Token creation\<close>

text \<open>
  \<^verbatim>\<open>TokenInfo\<close> of createToken.ts, and what \<^verbatim>\<open>createNewToken\<close> is called with:
  the six fields, the referral bytes and the \<^verbatim>\<open>value\<close> override (a decimal
  string).
\<close>

record TokenInfo =
  name :: string
  symbol :: string
  initAmountIn :: string
  description :: string
  extended :: string
  tokenUrlImage :: string

record submission = TokenInfo +
  referral :: string
  overrideValue :: string

text \<open>
  A receipt log with its emitting address and indexed topics, and a mined receipt.
\<close>

record log_entry =
  address :: string
  topics :: "string list"

record receipt =
  logs :: "log_entry list"

text \<open>
  The contract instance is an external collaborator like the provider: each call is
  appended to a history, and each answer may depend on that history. A pending
  transaction is represented by its hash; \<^verbatim>\<open>tx.wait()\<close> resolves to a receipt or to
  \<^verbatim>\<open>null\<close> (\<open>None\<close>), or rejects.
\<close>

datatype contract_call =
    CreationFee
  | CreateNewToken submission
  | Wait string

record contract =
  creationFeeAt :: "contract_call list \<Rightarrow> exn + int"
  createNewTokenAt :: "contract_call list \<Rightarrow> submission \<Rightarrow> exn + string"
  waitAt :: "contract_call list \<Rightarrow> string \<Rightarrow> exn + receipt option"

definition creationFee_call :: "contract \<Rightarrow> contract_call list \<Rightarrow> (exn + int) \<times> contract_call list" where
  "creationFee_call c hist = (creationFeeAt c hist, hist @ [CreationFee])"

definition createNewToken ::
  "contract \<Rightarrow> submission \<Rightarrow> contract_call list \<Rightarrow> (exn + string) \<times> contract_call list" where
  "createNewToken c sub hist = (createNewTokenAt c hist sub, hist @ [CreateNewToken sub])"

definition wait ::
  "contract \<Rightarrow> string \<Rightarrow> contract_call list \<Rightarrow> (exn + receipt option) \<times> contract_call list" where
  "wait c txHash hist = (waitAt c hist txHash, hist @ [Wait txHash])"

text \<open>
  \<^verbatim>\<open>BigInt.prototype.toString()\<close>: the decimal numeral, with a minus sign for a
  negative value. \<^verbatim>\<open>bigint\<close> is unbounded, so \<^verbatim>\<open>creationFee + valueAmount\<close> is
  addition on \<open>int\<close>.
\<close>

fun nat_toString :: "nat \<Rightarrow> string" where
  "nat_toString n =
     (if n < 10 then [char_of (48 + n)]
      else nat_toString (n div 10) @ [char_of (48 + n mod 10)])"

declare nat_toString.simps [simp del]

definition bigint_toString :: "int \<Rightarrow> string" where
  "bigint_toString i =
     (if i < 0 then CHR ''-'' # nat_toString (nat (- i)) else nat_toString (nat i))"

text \<open>
  \<^verbatim>\<open>ethers.ZeroHash\<close>, and the loop over the receipt's logs that stops at the first
  log whose \<^verbatim>\<open>topics[1]\<close> is that hash (\<^verbatim>\<open>topics[1]\<close> of a shorter array is
  \<^verbatim>\<open>undefined\<close> and equals nothing).
\<close>

definition ZeroHash :: string where
  "ZeroHash = ''0x0000000000000000000000000000000000000000000000000000000000000000''"

fun firstCreationLog :: "log_entry list \<Rightarrow> string option" where
  "firstCreationLog [] = None"
| "firstCreationLog (entry # rest) =
     (if length (topics entry) > 1 \<and> topics entry ! 1 = ZeroHash
      then Some (address entry)
      else firstCreationLog rest)"

text \<open>
  The returned object; \<open>tokenAddress = None\<close> is the variable left
  \<^verbatim>\<open>undefined\<close>.
\<close>

record CreationResult =
  txHash :: string
  tokenAddress :: "string option"

text \<open>
  \<^verbatim>\<open>createTokenOnContract\<close> of src/token-creation/createToken.ts.
  \<^verbatim>\<open>ethers.parseEther\<close> belongs to the library and is a parameter here. The
  \<^verbatim>\<open>catch\<close> block only logs and rethrows.
\<close>

definition createTokenOnContract ::
  "(string \<Rightarrow> exn + int) \<Rightarrow> contract \<Rightarrow> TokenInfo \<Rightarrow> contract_call list
     \<Rightarrow> (exn + CreationResult) \<times> contract_call list" where
  "createTokenOnContract parseEther c tokenInfo hist =
     (case creationFee_call c hist of
        (Inl e, hist1) \<Rightarrow> (Inl e, hist1)
      | (Inr creationFee, hist1) \<Rightarrow>
          (case parseEther (initAmountIn tokenInfo) of
             Inl e \<Rightarrow> (Inl e, hist1)
           | Inr valueAmount \<Rightarrow>
               let totalValue = creationFee + valueAmount in
               (case createNewToken c
                       \<lparr>name = name tokenInfo,
                        symbol = symbol tokenInfo,
                        initAmountIn = initAmountIn tokenInfo,
                        description = description tokenInfo,
                        extended = extended tokenInfo,
                        tokenUrlImage = tokenUrlImage tokenInfo,
                        referral = ''0x'',
                        overrideValue = bigint_toString totalValue\<rparr> hist1 of
                  (Inl e, hist2) \<Rightarrow> (Inl e, hist2)
                | (Inr tx, hist2) \<Rightarrow>
                    (case wait c tx hist2 of
                       (Inl e, hist3) \<Rightarrow> (Inl e, hist3)
                     | (Inr txReceipt, hist3) \<Rightarrow>
                         (Inr \<lparr>txHash = tx,
                               tokenAddress =
                                 (case txReceipt of
                                    None \<Rightarrow> None
                                  | Some r \<Rightarrow> firstCreationLog (logs r))\<rparr>, hist3)))))"

text \<open>
  The older copy in "code snippets/createToken.ts" differs in one line:
  \<^verbatim>\<open>const txReceipt = tx.wait();\<close> without \<^verbatim>\<open>await\<close>. There \<^verbatim>\<open>txReceipt\<close>
  is the promise itself, a truthy object without a \<^verbatim>\<open>logs\<close> property, whatever it
  later settles to.
\<close>

datatype 'a promise = Promise "exn + 'a"

definition promiseLogs :: "'a promise \<Rightarrow> log_entry list option" where
  "promiseLogs p = None"

definition createTokenOnContract_snippet ::
  "(string \<Rightarrow> exn + int) \<Rightarrow> contract \<Rightarrow> TokenInfo \<Rightarrow> contract_call list
     \<Rightarrow> (exn + CreationResult) \<times> contract_call list" where
  "createTokenOnContract_snippet parseEther c tokenInfo hist =
     (case creationFee_call c hist of
        (Inl e, hist1) \<Rightarrow> (Inl e, hist1)
      | (Inr creationFee, hist1) \<Rightarrow>
          (case parseEther (initAmountIn tokenInfo) of
             Inl e \<Rightarrow> (Inl e, hist1)
           | Inr valueAmount \<Rightarrow>
               let totalValue = creationFee + valueAmount in
               (case createNewToken c
                       \<lparr>name = name tokenInfo,
                        symbol = symbol tokenInfo,
                        initAmountIn = initAmountIn tokenInfo,
                        description = description tokenInfo,
                        extended = extended tokenInfo,
                        tokenUrlImage = tokenUrlImage tokenInfo,
                        referral = ''0x'',
                        overrideValue = bigint_toString totalValue\<rparr> hist1 of
                  (Inl e, hist2) \<Rightarrow> (Inl e, hist2)
                | (Inr tx, hist2) \<Rightarrow>
                    (case wait c tx hist2 of
                       (settled, hist3) \<Rightarrow>
                         let txReceipt = Promise settled in
                         (Inr \<lparr>txHash = tx,
                               tokenAddress =
                                 (case promiseLogs txReceipt of
                                    None \<Rightarrow> None
                                  | Some ls \<Rightarrow> firstCreationLog ls)\<rparr>, hist3)))))"

text \<open>
  The submissions found in a call history, and the predicate the extraction loop
  tests.
\<close>

fun submissions :: "contract_call list \<Rightarrow> submission list" where
  "submissions [] = []"
| "submissions (CreateNewToken sub # cs) = sub # submissions cs"
| "submissions (c # cs) = submissions cs"

definition isCreationLog :: "log_entry \<Rightarrow> bool" where
  "isCreationLog entry = (length (topics entry) > 1 \<and> topics entry ! 1 = ZeroHash)"

text \<open>
  A reference parser for decimal strings in the manner of the library's
  \<^verbatim>\<open>parseUnits\<close> (optional sign, digits, optional point and digits, at most
  \<open>decimals\<close> significant fraction digits), scaled by \<open>10 ^ decimals\<close>. It is used
  for concrete fixtures only; the theorems below hold for any parser.
\<close>

definition digitValue :: "char \<Rightarrow> nat" where
  "digitValue c = of_char c - 48"

definition isDigit :: "char \<Rightarrow> bool" where
  "isDigit c = (48 \<le> (of_char c :: nat) \<and> (of_char c :: nat) \<le> 57)"

definition digitsValue :: "string \<Rightarrow> nat" where
  "digitsValue s = foldl (\<lambda>acc c. 10 * acc + digitValue c) 0 s"

definition referenceParseUnits :: "nat \<Rightarrow> string \<Rightarrow> exn + int" where
  "referenceParseUnits decimals s =
     (let negative = (s \<noteq> [] \<and> hd s = CHR ''-'');
          body = (if negative then tl s else s);
          whole = takeWhile isDigit body;
          rest = dropWhile isDigit body;
          frac = (if rest \<noteq> [] \<and> hd rest = CHR ''.'' then tl rest else rest)
      in if \<not> list_all isDigit frac \<or> (whole = [] \<and> frac = [])
         then Inl (Error ''invalid FixedNumber string value'')
         else if \<not> list_all (\<lambda>c. c = CHR ''0'') (drop decimals frac)
         then Inl (Error ''too many decimals for format'')
         else
           let v = int (digitsValue (whole @ take decimals (frac @ replicate decimals (CHR ''0''))))
           in Inr (if negative then - v else v))"

text \<open>
  Fixtures: a contract that answers every call successfully, a token description, and
  a receipt with three logs of which the second carries
  \<^verbatim>\<open>topics = [X, ZeroHash]\<close> at address \<^verbatim>\<open>0xAAA\<close>.
\<close>

definition fixtureContract :: "int \<Rightarrow> receipt \<Rightarrow> contract" where
  "fixtureContract fee r =
     \<lparr>creationFeeAt = (\<lambda>hist. Inr fee),
      createNewTokenAt = (\<lambda>hist sub. Inr ''0x7e57''),
      waitAt = (\<lambda>hist tx. Inr (Some r))\<rparr>"

definition rakun :: TokenInfo where
  "rakun = \<lparr>name = ''Rakun Inu'', symbol = ''TANUKI'', initAmountIn = ''0.0000000000000001'',
            description = ''This is my awesome memecoin!'', extended = ''{}'',
            tokenUrlImage = ''ipfs://image''\<rparr>"

definition threeLogs :: receipt where
  "threeLogs = \<lparr>logs =
     [\<lparr>address = ''0xBBB'', topics = [''0xddf2'', ''0x0001'', ''0x0002'']\<rparr>,
      \<lparr>address = ''0xAAA'', topics = [''0x8be0'', ZeroHash]\<rparr>,
      \<lparr>address = ''0xCCC'', topics = [''0x1234'']\<rparr>]\<rparr>"

section \<open>Price from the virtual reserves\<close>

text \<open>\<^verbatim>\<open>TokenPoolInfo\<close> of getTokenInfo.ts; \<^verbatim>\<open>bigint\<close> fields are \<open>int\<close>.\<close>

record TokenPoolInfo =
  token :: string
  tokenReserve :: int
  virtualTokenReserve :: int
  ethReserve :: int
  virtualEthReserve :: int
  lastPrice :: int
  lastMcapInEth :: int
  lastTimestamp :: int
  lastBlock :: int
  creator :: string
  liquidityManager :: string
  poolId :: string
  curveConstant :: int

text \<open>
  JavaScript numbers are IEEE doubles. A finite double is represented by the real it
  denotes (the two zeros are not told apart); rounding of an exact result to a double,
  which may overflow to an infinity, is left abstract as a parameter \<open>rd\<close> of every
  operation that rounds. \<^verbatim>\<open>Number(b)\<close> of a \<^verbatim>\<open>bigint\<close> rounds \<open>b\<close>.
\<close>

datatype number = Finite real | PosInfinity | NegInfinity | NaN

definition toNumber :: "(real \<Rightarrow> number) \<Rightarrow> int \<Rightarrow> number" where
  "toNumber rd b = rd (real_of_int b)"

text \<open>
  Division and multiplication with the IEEE special cases. A zero divisor here is
  always \<open>+0\<close>, since \<^verbatim>\<open>Number\<close> of a \<^verbatim>\<open>bigint\<close> is never \<open>-0\<close>.
  \<open>bigIntOfFloor n\<close> is \<^verbatim>\<open>BigInt(Math.floor(n))\<close>: \<^verbatim>\<open>Math.floor\<close> keeps
  infinities and \<^verbatim>\<open>NaN\<close>, and \<^verbatim>\<open>BigInt\<close> of those throws a \<^verbatim>\<open>RangeError\<close>
  (the message texts are V8's).
\<close>

fun divide_number :: "(real \<Rightarrow> number) \<Rightarrow> number \<Rightarrow> number \<Rightarrow> number" where
  "divide_number rd NaN b = NaN"
| "divide_number rd a NaN = NaN"
| "divide_number rd (Finite x) (Finite y) =
     (if y = 0
      then (if x = 0 then NaN else if x > 0 then PosInfinity else NegInfinity)
      else rd (x / y))"
| "divide_number rd (Finite x) b = Finite 0"
| "divide_number rd PosInfinity (Finite y) = (if y \<ge> 0 then PosInfinity else NegInfinity)"
| "divide_number rd NegInfinity (Finite y) = (if y \<ge> 0 then NegInfinity else PosInfinity)"
| "divide_number rd a b = NaN"

fun times_number :: "(real \<Rightarrow> number) \<Rightarrow> number \<Rightarrow> number \<Rightarrow> number" where
  "times_number rd NaN b = NaN"
| "times_number rd a NaN = NaN"
| "times_number rd (Finite x) (Finite y) = rd (x * y)"
| "times_number rd (Finite x) PosInfinity =
     (if x = 0 then NaN else if x > 0 then PosInfinity else NegInfinity)"
| "times_number rd (Finite x) NegInfinity =
     (if x = 0 then NaN else if x > 0 then NegInfinity else PosInfinity)"
| "times_number rd PosInfinity (Finite y) =
     (if y = 0 then NaN else if y > 0 then PosInfinity else NegInfinity)"
| "times_number rd NegInfinity (Finite y) =
     (if y = 0 then NaN else if y > 0 then NegInfinity else PosInfinity)"
| "times_number rd PosInfinity PosInfinity = PosInfinity"
| "times_number rd PosInfinity NegInfinity = NegInfinity"
| "times_number rd NegInfinity PosInfinity = NegInfinity"
| "times_number rd NegInfinity NegInfinity = PosInfinity"

fun bigIntOfFloor :: "number \<Rightarrow> exn + int" where
  "bigIntOfFloor (Finite x) = Inr \<lfloor>x\<rfloor>"
| "bigIntOfFloor PosInfinity =
     Inl (RangeError ''The number Infinity cannot be converted to a BigInt because it is not an integer'')"
| "bigIntOfFloor NegInfinity =
     Inl (RangeError ''The number -Infinity cannot be converted to a BigInt because it is not an integer'')"
| "bigIntOfFloor NaN =
     Inl (RangeError ''The number NaN cannot be converted to a BigInt because it is not an integer'')"

text \<open>
  The first statement of \<^verbatim>\<open>calculateCurrentPrice\<close>, the constant \<^verbatim>\<open>price\<close>:
  \<^verbatim>\<open>(Number(virtualEthReserve) / Number(virtualTokenReserve)) * 10**18\<close>. It has no
  test of the divisor and cannot throw.
\<close>

definition price :: "(real \<Rightarrow> number) \<Rightarrow> TokenPoolInfo \<Rightarrow> number" where
  "price rd poolInfo =
     times_number rd
       (divide_number rd (toNumber rd (virtualEthReserve poolInfo))
                         (toNumber rd (virtualTokenReserve poolInfo)))
       (Finite (10 ^ 18))"

text \<open>
  \<^verbatim>\<open>calculateCurrentPrice\<close>: the second statement converts \<^verbatim>\<open>price\<close> and
  formats it. \<^verbatim>\<open>ethers.formatEther\<close> belongs to the library and is a parameter.
\<close>

definition calculateCurrentPrice ::
  "(real \<Rightarrow> number) \<Rightarrow> (int \<Rightarrow> string) \<Rightarrow> TokenPoolInfo \<Rightarrow> exn + string" where
  "calculateCurrentPrice rd formatEther poolInfo =
     (case bigIntOfFloor (price rd poolInfo) of
        Inl e \<Rightarrow> Inl e
      | Inr wei \<Rightarrow> Inr (formatEther wei))"

text \<open>
  Two pools whose virtual token reserve is zero, one with and one without virtual
  ETH.
\<close>

definition emptyPool :: TokenPoolInfo where
  "emptyPool =
     \<lparr>token = ''0x024a'', tokenReserve = 0, virtualTokenReserve = 0,
      ethReserve = 5, virtualEthReserve = 5000000000000000000,
      lastPrice = 0, lastMcapInEth = 0, lastTimestamp = 0, lastBlock = 0,
      creator = ''0xc0'', liquidityManager = ''0x00'', poolId = ''0x00'', curveConstant = 0\<rparr>"

definition drainedPool :: TokenPoolInfo where
  "drainedPool =
     \<lparr>token = ''0x024a'', tokenReserve = 0, virtualTokenReserve = 0,
      ethReserve = 0, virtualEthReserve = 0,
      lastPrice = 0, lastMcapInEth = 0, lastTimestamp = 0, lastBlock = 0,
      creator = ''0xc0'', liquidityManager = ''0x00'', poolId = ''0x00'', curveConstant = 0\<rparr>"

section \<open>Properties of the creation-block locator\<close>

subsection \<open>Rounding of block arithmetic\<close>

lemma ulp_below: "n < 2 ^ 53 \<Longrightarrow> ulp n = 1"
  by (subst ulp.simps) simp

lemma ulp_binade: "2 ^ 53 \<le> n \<Longrightarrow> n < 2 ^ 54 \<Longrightarrow> ulp n = 2"
  by (subst ulp.simps) (simp add: ulp_below)

lemma roundNat_exact: "n \<le> 2 ^ 53 \<Longrightarrow> roundNat n = n"
proof (cases "n < 2 ^ 53")
  case True
  then show ?thesis by (simp add: roundNat_def ulp_below)
next
  case False
  assume "n \<le> 2 ^ 53"
  with False have "n = 2 ^ 53" by simp
  then show ?thesis by (simp add: roundNat_def ulp_binade)
qed

lemma roundNat_binade:
  assumes "2 ^ 53 \<le> n" and "n < 2 ^ 54"
  shows "even (roundNat n) \<and> n \<le> roundNat n + 1 \<and> roundNat n \<le> n + 1"
proof -
  have "roundNat n = (if n mod 2 = 0 \<or> even (n div 2) then 2 * (n div 2) else 2 * (n div 2) + 2)"
    using assms by (auto simp: roundNat_def ulp_binade Let_def)
  then show ?thesis by presburger
qed

lemma roundDouble_exact: "- (2 ^ 53) \<le> i \<Longrightarrow> i \<le> 2 ^ 53 \<Longrightarrow> roundDouble i = i"
  by (simp add: roundDouble_def roundNat_exact nat_le_iff)

lemma roundDouble_binade:
  assumes "2 ^ 53 \<le> i" and "i < 2 ^ 54"
  shows "even (roundDouble i) \<and> i - 1 \<le> roundDouble i \<and> roundDouble i \<le> i + 1"
proof -
  have n: "2 ^ 53 \<le> nat i" "nat i < 2 ^ 54"
    using assms by (simp_all add: le_nat_iff nat_less_iff)
  have "roundDouble i = int (roundNat (nat i))"
    using assms by (simp add: roundDouble_def)
  then show ?thesis
    using roundNat_binade [OF n] assms by (simp add: ) linarith
qed

lemma midBlock_between:
  assumes "0 \<le> lo" and "lo \<le> hi" and "hi < 2 ^ 53"
  shows "lo \<le> roundDouble (lo + hi) div 2 \<and> roundDouble (lo + hi) div 2 \<le> hi"
proof (cases "lo + hi \<le> 2 ^ 53")
  case True
  then have "roundDouble (lo + hi) = lo + hi"
    using assms by (intro roundDouble_exact) simp_all
  moreover have "lo \<le> (lo + hi) div 2 \<and> (lo + hi) div 2 \<le> hi"
    using assms(2) by arith
  ultimately show ?thesis by simp
next
  case False
  then have "2 ^ 53 \<le> lo + hi" "lo + hi < 2 ^ 54"
    using assms by simp_all
  from roundDouble_binade [OF this]
  show ?thesis using assms by presburger
qed

text \<open>
  With a non-negative lower bound and an upper bound below \<open>2^53\<close>, the loop body
  behaves as in exact arithmetic around a midpoint that lies between the bounds.
\<close>

lemma probeStep_safe:
  assumes "0 \<le> lowBlock s" and "lowBlock s \<le> highBlock s" and "highBlock s < 2 ^ 53"
  shows "\<exists>m. lowBlock s \<le> m \<and> m \<le> highBlock s
           \<and> fst (probeStep p a (s, hist))
               = (case codeAt p hist a (Some m) of
                    Inr codeAtBlock \<Rightarrow>
                      if codeAtBlock = ''0x'' then s\<lparr>lowBlock := m + 1\<rparr>
                      else s\<lparr>foundBlock := Some m, highBlock := m - 1\<rparr>
                  | Inl error \<Rightarrow> s\<lparr>lowBlock := m + 1\<rparr>)"
proof -
  define m where "m = roundDouble (lowBlock s + highBlock s) div 2"
  have m: "lowBlock s \<le> m" "m \<le> highBlock s"
    using midBlock_between [OF assms] by (simp_all add: m_def)
  have up: "roundDouble (m + 1) = m + 1" and down: "roundDouble (m - 1) = m - 1"
    using m assms by (simp_all add: roundDouble_exact)
  have "fst (probeStep p a (s, hist))
          = (case codeAt p hist a (Some m) of
               Inr codeAtBlock \<Rightarrow>
                 if codeAtBlock = ''0x'' then s\<lparr>lowBlock := m + 1\<rparr>
                 else s\<lparr>foundBlock := Some m, highBlock := m - 1\<rparr>
             | Inl error \<Rightarrow> s\<lparr>lowBlock := m + 1\<rparr>)"
    by (simp add: probeStep_def getCode_def Let_def up down flip: m_def split: sum.splits)
  with m show ?thesis by blast
qed

subsection \<open>The loop shrinks its interval and ends\<close>

lemma probeStep_width:
  assumes "0 \<le> lowBlock s" and "lowBlock s \<le> highBlock s" and "highBlock s < 2 ^ 53"
  shows "highBlock (fst (probeStep p a (s, hist))) - lowBlock (fst (probeStep p a (s, hist)))
           < highBlock s - lowBlock s
         \<and> 0 \<le> lowBlock (fst (probeStep p a (s, hist)))
         \<and> highBlock (fst (probeStep p a (s, hist))) < 2 ^ 53"
proof -
  obtain m where "lowBlock s \<le> m" "m \<le> highBlock s"
    and "fst (probeStep p a (s, hist))
               = (case codeAt p hist a (Some m) of
                    Inr codeAtBlock \<Rightarrow>
                      if codeAtBlock = ''0x'' then s\<lparr>lowBlock := m + 1\<rparr>
                      else s\<lparr>foundBlock := Some m, highBlock := m - 1\<rparr>
                  | Inl error \<Rightarrow> s\<lparr>lowBlock := m + 1\<rparr>)"
    using probeStep_safe [OF assms] by blast
  then show ?thesis
    using assms by (auto split: sum.splits)
qed

lemma searchLoop_returns:
  assumes "0 \<le> lowBlock s" and "highBlock s < 2 ^ 53"
  shows "\<exists>r. searchLoop p a (s, hist) = Some r"
  using assms
proof (induction "nat (highBlock s - lowBlock s + 1)" arbitrary: s hist rule: less_induct)
  case less
  show ?case
  proof (cases "lowBlock s \<le> highBlock s")
    case True
    obtain s' hist' where st: "probeStep p a (s, hist) = (s', hist')"
      by (cases "probeStep p a (s, hist)") auto
    have w: "highBlock s' - lowBlock s' < highBlock s - lowBlock s"
      "0 \<le> lowBlock s'" "highBlock s' < 2 ^ 53"
      using probeStep_width [OF less.prems(1) True less.prems(2), of p a hist] st by simp_all
    then have "nat (highBlock s' - lowBlock s' + 1) < nat (highBlock s - lowBlock s + 1)"
      using True by simp
    then obtain r where "searchLoop p a (s', hist') = Some r"
      using less.hyps w by blast
    then show ?thesis
      using True st by (subst searchLoop.simps) simp
  next
    case False
    then show ?thesis
      by (subst searchLoop.simps) simp
  qed
qed

lemma findTokenCreationBlock_returns:
  assumes "\<forall>h n. blockNumberAt p h = Inr n \<longrightarrow> n < 2 ^ 53"
  shows "\<exists>r. findTokenCreationBlock p a hist = Some r"
proof -
  have nn: "searchLoop p a (\<lparr>lowBlock = 0, highBlock = n, foundBlock = None\<rparr>, h') \<noteq> None"
    if "blockNumberAt p h = Inr n" for n h h'
    using searchLoop_returns [of "\<lparr>lowBlock = 0, highBlock = n, foundBlock = None\<rparr>" p a h']
      assms that by auto
  show ?thesis
    unfolding findTokenCreationBlock_def getBlockNumber_def
    by (auto split: prod.splits sum.splits option.splits dest: nn)
qed

subsection \<open>A loop that never ends\<close>

text \<open>
  If some property of the search state holds initially, is kept by the loop body and
  implies the loop condition, the loop does not return.
\<close>

lemma searchLoop_stuck:
  assumes keep: "\<And>s hist. I s \<Longrightarrow>
             lowBlock s \<le> highBlock s \<and> I (fst (probeStep p a (s, hist)))"
      and init: "I s"
  shows "searchLoop p a (s, hist) = None"
proof -
  have "\<not> (p' = p \<and> a' = a \<and> I (fst st))" if run: "searchLoop p' a' st = Some r" for p' a' st r
  proof (rule searchLoop.raw_induct
           [where P = "\<lambda>p' a' st r. \<not> (p' = p \<and> a' = a \<and> I (fst st))", OF _ run])
    fix loop p' a' st r
    assume ih: "\<And>q b t y. loop q b t = Some y \<Longrightarrow> \<not> (q = p \<and> b = a \<and> I (fst t))"
      and body: "(if lowBlock (fst st) \<le> highBlock (fst st)
                  then loop p' a' (probeStep p' a' st) else Some st) = Some r"
    show "\<not> (p' = p \<and> a' = a \<and> I (fst st))"
    proof
      assume h: "p' = p \<and> a' = a \<and> I (fst st)"
      then have k: "lowBlock (fst st) \<le> highBlock (fst st)"
        "I (fst (probeStep p a (fst st, snd st)))"
        using keep [of "fst st" "snd st"] by simp_all
      with body h have "loop p a (probeStep p a st) = Some r" by simp
      from ih [OF this] k(2) show False by simp
    qed
  qed
  then show ?thesis
    using init by (cases "searchLoop p a (s, hist)") auto
qed

lemma roundDouble_values:
  "roundDouble 9007199254740993 = 9007199254740992"
  "roundDouble 18014398509481984 = 18014398509481984"
  "roundDouble 18014398509481985 = 18014398509481984"
  "roundDouble 18014398509481986 = 18014398509481984"
  by (simp_all add: roundDouble_def roundNat_def ulp.simps Let_def)

lemma roundDouble_top:
  assumes "2 ^ 53 \<le> i" and "i \<le> 2 ^ 54 + 2"
  shows "0 \<le> roundDouble i \<and> roundDouble i \<le> 2 ^ 54"
proof (cases "i < 2 ^ 54")
  case True
  from roundDouble_binade [OF assms(1) this] True assms(1) show ?thesis by simp
next
  case False
  have three: "i = a \<or> i = a + 1 \<or> i = a + 2" if "a \<le> i" "i \<le> a + 2" for a :: int
    using that by arith
  have "i = 18014398509481984 \<or> i = 18014398509481984 + 1 \<or> i = 18014398509481984 + 2"
    using False assms(2) by (intro three) simp_all
  then show ?thesis
    by (auto simp: roundDouble_values)
qed

lemma low_stays_below:
  assumes "0 \<le> lo" and "lo \<le> 2 ^ 53" and "2 ^ 53 \<le> hi" and "hi \<le> 2 ^ 53 + 2"
  shows "roundDouble (lo + hi) div 2 \<le> 2 ^ 53
       \<and> 0 \<le> roundDouble (roundDouble (lo + hi) div 2 + 1)
       \<and> roundDouble (roundDouble (lo + hi) div 2 + 1) \<le> 2 ^ 53"
proof -
  define m where "m = roundDouble (lo + hi) div 2"
  have "2 ^ 53 \<le> lo + hi" "lo + hi \<le> 2 ^ 54 + 2" using assms by simp_all
  from roundDouble_top [OF this]
  have "0 \<le> roundDouble (lo + hi)" "roundDouble (lo + hi) \<le> 18014398509481984"
    by simp_all
  then have "0 \<le> m" "m \<le> 18014398509481984 div 2"
    unfolding m_def by (simp, intro zdiv_mono1) simp_all
  then have m: "0 \<le> m" "m \<le> 9007199254740992"
    by simp_all
  have "0 \<le> roundDouble (m + 1) \<and> roundDouble (m + 1) \<le> 2 ^ 53"
  proof (cases "m + 1 \<le> 2 ^ 53")
    case True
    then show ?thesis using m by (simp add: roundDouble_exact)
  next
    case False
    with m have "m + 1 = 9007199254740993" by simp
    then have "roundDouble (m + 1) = 9007199254740992"
      by (simp only: roundDouble_values)
    then show ?thesis by simp
  qed
  with m show ?thesis by (simp add: m_def)
qed

lemma timeout_loop_never_returns:
  assumes "highBlock s = 2 ^ 53" and "0 \<le> lowBlock s" and "lowBlock s \<le> 2 ^ 53"
  shows "searchLoop timeoutProvider a (s, hist) = None"
proof (rule searchLoop_stuck
         [where I = "\<lambda>s. highBlock s = 2 ^ 53 \<and> 0 \<le> lowBlock s \<and> lowBlock s \<le> 2 ^ 53"])
  show "highBlock s = 2 ^ 53 \<and> 0 \<le> lowBlock s \<and> lowBlock s \<le> 2 ^ 53"
    using assms by simp
next
  fix s :: search and hist
  assume I: "highBlock s = 2 ^ 53 \<and> 0 \<le> lowBlock s \<and> lowBlock s \<le> 2 ^ 53"
  then have "0 \<le> roundDouble (roundDouble (lowBlock s + highBlock s) div 2 + 1)
           \<and> roundDouble (roundDouble (lowBlock s + highBlock s) div 2 + 1) \<le> 2 ^ 53"
    using low_stays_below [of "lowBlock s" "highBlock s"] by simp
  with I show "lowBlock s \<le> highBlock s
      \<and> (highBlock (fst (probeStep timeoutProvider a (s, hist))) = 2 ^ 53
         \<and> 0 \<le> lowBlock (fst (probeStep timeoutProvider a (s, hist)))
         \<and> lowBlock (fst (probeStep timeoutProvider a (s, hist))) \<le> 2 ^ 53)"
    by (simp add: probeStep_def timeoutProvider_def getCode_def Let_def)
qed

lemma late_creation_never_found:
  assumes "highBlock s = 2 ^ 53 + 2" and "0 \<le> lowBlock s" and "lowBlock s \<le> 2 ^ 53"
  shows "searchLoop (oracleProvider (2 ^ 53 + 2) (\<lambda>b. 2 ^ 53 + 2 \<le> b)) a (s, hist) = None"
proof (rule searchLoop_stuck
         [where I = "\<lambda>s. highBlock s = 2 ^ 53 + 2 \<and> 0 \<le> lowBlock s \<and> lowBlock s \<le> 2 ^ 53"])
  show "highBlock s = 2 ^ 53 + 2 \<and> 0 \<le> lowBlock s \<and> lowBlock s \<le> 2 ^ 53"
    using assms by simp
next
  fix s :: search and hist
  assume I: "highBlock s = 2 ^ 53 + 2 \<and> 0 \<le> lowBlock s \<and> lowBlock s \<le> 2 ^ 53"
  then have "roundDouble (lowBlock s + highBlock s) div 2 \<le> 2 ^ 53
           \<and> 0 \<le> roundDouble (roundDouble (lowBlock s + highBlock s) div 2 + 1)
           \<and> roundDouble (roundDouble (lowBlock s + highBlock s) div 2 + 1) \<le> 2 ^ 53"
    using low_stays_below [of "lowBlock s" "highBlock s"] by simp
  with I show "lowBlock s \<le> highBlock s
      \<and> (highBlock (fst (probeStep (oracleProvider (2 ^ 53 + 2) (\<lambda>b. 2 ^ 53 + 2 \<le> b)) a (s, hist)))
            = 2 ^ 53 + 2
         \<and> 0 \<le> lowBlock (fst (probeStep (oracleProvider (2 ^ 53 + 2) (\<lambda>b. 2 ^ 53 + 2 \<le> b)) a (s, hist)))
         \<and> lowBlock (fst (probeStep (oracleProvider (2 ^ 53 + 2) (\<lambda>b. 2 ^ 53 + 2 \<le> b)) a (s, hist)))
             \<le> 2 ^ 53)"
    by (simp add: probeStep_def oracleProvider_def getCode_def Let_def)
qed

subsection \<open>The locator finds the creation block\<close>

lemma searchLoop_oracle:
  assumes "\<forall>b. 0 \<le> b \<and> b < K \<longrightarrow> \<not> hasCode b"
      and "\<forall>b. K \<le> b \<and> b \<le> L \<longrightarrow> hasCode b"
      and "L < 2 ^ 53"
      and "0 \<le> lowBlock s" "lowBlock s \<le> K" "K \<le> highBlock s + 1" "highBlock s \<le> L"
      and "foundBlock s = Some (highBlock s + 1) \<or> (foundBlock s = None \<and> highBlock s = L \<and> K \<le> L)"
  shows "\<exists>s' hist'. searchLoop (oracleProvider L hasCode) a (s, hist) = Some (s', hist')
            \<and> foundBlock s' = Some K"
  using assms(4-)
proof (induction "nat (highBlock s - lowBlock s + 1)" arbitrary: s hist rule: less_induct)
  case less
  show ?case
  proof (cases "lowBlock s \<le> highBlock s")
    case False
    with less.prems have "foundBlock s = Some K" by auto
    with False show ?thesis by (subst searchLoop.simps) simp
  next
    case True
    have hi: "highBlock s < 2 ^ 53" using less.prems assms(3) by simp
    obtain m where m: "lowBlock s \<le> m" "m \<le> highBlock s"
      and step: "fst (probeStep (oracleProvider L hasCode) a (s, hist))
               = (case codeAt (oracleProvider L hasCode) hist a (Some m) of
                    Inr codeAtBlock \<Rightarrow>
                      if codeAtBlock = ''0x'' then s\<lparr>lowBlock := m + 1\<rparr>
                      else s\<lparr>foundBlock := Some m, highBlock := m - 1\<rparr>
                  | Inl error \<Rightarrow> s\<lparr>lowBlock := m + 1\<rparr>)"
      using probeStep_safe [OF less.prems(1) True hi] by blast
    obtain s' hist' where st: "probeStep (oracleProvider L hasCode) a (s, hist) = (s', hist')"
      by (cases "probeStep (oracleProvider L hasCode) a (s, hist)") auto
    have s': "s' = (if hasCode m then s\<lparr>foundBlock := Some m, highBlock := m - 1\<rparr>
                    else s\<lparr>lowBlock := m + 1\<rparr>)"
      using step st by (simp add: oracleProvider_def)
    have hc: "hasCode m \<longleftrightarrow> K \<le> m"
      using assms(1,2) m less.prems by (metis le_less_trans not_le order_trans)
    have dec: "nat (highBlock s' - lowBlock s' + 1) < nat (highBlock s - lowBlock s + 1)"
      using m s' by auto
    have "\<exists>s'' hist''. searchLoop (oracleProvider L hasCode) a (s', hist') = Some (s'', hist'')
            \<and> foundBlock s'' = Some K"
      using less.hyps [OF dec] less.prems m hc s' by auto
    then show ?thesis
      using True st by (subst searchLoop.simps) simp
  qed
qed

text \<open>
  Claim C1, as stated, fails. With \<open>K = latestBlock = 2^53 + 2\<close> and an oracle that
  reports code exactly from block \<open>K\<close> on, \<^verbatim>\<open>findTokenCreationBlock\<close> does not return
  \<open>K\<close>: it does not return at all. Once \<open>lowBlock\<close> has reached \<open>2^53\<close>, the midpoint
  is \<open>2^53\<close> again and \<^verbatim>\<open>midBlock + 1\<close> rounds back to \<open>2^53\<close>.
\<close>

theorem locator_beyond_safe_integers_counterexample:
  "(0::int) \<le> 9007199254740994
   \<and> findTokenCreationBlock
         (oracleProvider 9007199254740994 (\<lambda>b. 9007199254740994 \<le> b)) ''0x024a'' [] = None"
proof -
  have "searchLoop (oracleProvider 9007199254740994 (\<lambda>b. 9007199254740994 \<le> b)) ''0x024a''
          (\<lparr>lowBlock = 0, highBlock = 9007199254740994, foundBlock = None\<rparr>,
           [GetCode ''0x024a'' None, GetBlockNumber]) = None"
    using late_creation_never_found
            [of "\<lparr>lowBlock = 0, highBlock = 9007199254740994, foundBlock = None\<rparr>" "''0x024a''"
                "[GetCode ''0x024a'' None, GetBlockNumber]"]
    by simp
  then show ?thesis
    by (simp add: findTokenCreationBlock_def getCode_def getBlockNumber_def oracleProvider_def)
qed

text \<open>
  Claim C1, amended. For every block number \<open>K\<close> with \<open>0 \<le> K \<le> latestBlock\<close>, where
  \<open>latestBlock < 2^53\<close> (a safe integer), and every code-presence oracle that reports
  no code at every block below \<open>K\<close> and code at every block from \<open>K\<close> up to
  \<open>latestBlock\<close>, \<^verbatim>\<open>findTokenCreationBlock\<close> returns exactly \<open>K\<close>.
\<close>

theorem locator_returns_creation_block:
  assumes "0 \<le> K" and "K \<le> latestBlock" and "latestBlock < 2 ^ 53"
      and "\<forall>b. 0 \<le> b \<and> b < K \<longrightarrow> \<not> hasCode b"
      and "\<forall>b. K \<le> b \<and> b \<le> latestBlock \<longrightarrow> hasCode b"
  shows "\<exists>hist'. findTokenCreationBlock (oracleProvider latestBlock hasCode) addr hist
           = Some (Inr K, hist')"
proof -
  let ?p = "oracleProvider latestBlock hasCode"
  let ?h2 = "hist @ [GetCode addr None] @ [GetBlockNumber]"
  let ?s0 = "\<lparr>lowBlock = 0, highBlock = latestBlock, foundBlock = None\<rparr>"
  have present: "hasCode latestBlock" using assms by auto
  obtain s' hist' where run: "searchLoop ?p addr (?s0, ?h2) = Some (s', hist')"
    and found: "foundBlock s' = Some K"
    using searchLoop_oracle [OF assms(4,5,3), of ?s0 addr ?h2] assms(1,2) by auto
  show ?thesis
    using present run found
    by (simp add: findTokenCreationBlock_def getCode_def getBlockNumber_def oracleProvider_def)
qed

theorem locator_returns_creation_block_witness:
  "(0::int) \<le> 3 \<and> (3::int) \<le> 10 \<and> (10::int) < 2 ^ 53 \<and>
   (\<exists>hist'. findTokenCreationBlock (oracleProvider 10 (\<lambda>b. 3 \<le> b)) ''0x024a'' [] = Some (Inr 3, hist'))"
  using locator_returns_creation_block [of 3 10 "\<lambda>b. 3 \<le> b" "''0x024a''" "[]"] by simp

text \<open>
  Claim C9, as stated, fails. At \<open>latestBlock = 2^53\<close> with a provider whose block
  probes all fail, the loop of \<^verbatim>\<open>findTokenCreationBlock\<close> never ends: when
  \<open>lowBlock\<close> has reached \<open>2^53\<close>, \<^verbatim>\<open>midBlock + 1\<close> rounds back to \<open>2^53\<close> and the
  interval no longer shrinks.
\<close>

theorem search_loop_stuck_counterexample:
  "(0::int) \<le> 9007199254740992
   \<and> searchLoop timeoutProvider ''0x024a''
         (\<lparr>lowBlock = 0, highBlock = 9007199254740992, foundBlock = None\<rparr>, []) = None
   \<and> findTokenCreationBlock timeoutProvider ''0x024a'' [] = None"
proof -
  have "searchLoop timeoutProvider ''0x024a''
          (\<lparr>lowBlock = 0, highBlock = 9007199254740992, foundBlock = None\<rparr>, h) = None" for h
    using timeout_loop_never_returns
            [of "\<lparr>lowBlock = 0, highBlock = 9007199254740992, foundBlock = None\<rparr>" "''0x024a''" h]
    by simp
  then show ?thesis
    by (simp add: findTokenCreationBlock_def getCode_def getBlockNumber_def timeoutProvider_def)
qed

text \<open>
  Claim C9, amended. For every provider, whatever each single code probe answers (code
  present, code absent, or a failure), and every search state with \<open>0 \<le> lowBlock\<close>
  and \<open>highBlock < 2^53\<close> (in particular the initial state of every
  \<open>latestBlock\<close> that is a safe integer), the binary-search loop of
  \<^verbatim>\<open>findTokenCreationBlock\<close> returns, and every run of the loop body makes
  \<open>highBlock - lowBlock\<close> strictly smaller; the whole function returns for every
  provider whose block numbers are below \<open>2^53\<close>.
\<close>

theorem search_loop_terminates:
  assumes "0 \<le> lowBlock s" and "highBlock s < 2 ^ 53"
  shows "(\<exists>r. searchLoop p addr (s, hist) = Some r)
   \<and> (lowBlock s \<le> highBlock s \<longrightarrow>
        highBlock (fst (probeStep p addr (s, hist)))
          - lowBlock (fst (probeStep p addr (s, hist)))
        < highBlock s - lowBlock s)
   \<and> ((\<forall>h n. blockNumberAt p h = Inr n \<longrightarrow> n < 2 ^ 53) \<longrightarrow>
        (\<exists>r. findTokenCreationBlock p addr hist = Some r))"
  using searchLoop_returns [OF assms, of p addr hist]
        findTokenCreationBlock_returns [of p addr hist]
        probeStep_width [OF assms(1) _ assms(2), of p addr hist]
  by blast

theorem search_loop_terminates_witness:
  "0 \<le> lowBlock \<lparr>lowBlock = 0, highBlock = 10, foundBlock = None\<rparr>
   \<and> highBlock \<lparr>lowBlock = 0, highBlock = 10, foundBlock = None\<rparr> < 2 ^ 53
   \<and> lowBlock \<lparr>lowBlock = 0, highBlock = 10, foundBlock = None\<rparr>
      \<le> highBlock \<lparr>lowBlock = 0, highBlock = 10, foundBlock = None\<rparr>
   \<and> (\<exists>r. searchLoop failingProvider ''0x024a''
             (\<lparr>lowBlock = 0, highBlock = 10, foundBlock = None\<rparr>, []) = Some r)
   \<and> highBlock (fst (probeStep failingProvider ''0x024a''
             (\<lparr>lowBlock = 0, highBlock = 10, foundBlock = None\<rparr>, [])))
       - lowBlock (fst (probeStep failingProvider ''0x024a''
             (\<lparr>lowBlock = 0, highBlock = 10, foundBlock = None\<rparr>, [])))
       < highBlock \<lparr>lowBlock = 0, highBlock = 10, foundBlock = None\<rparr>
          - lowBlock \<lparr>lowBlock = 0, highBlock = 10, foundBlock = None\<rparr>
   \<and> (\<exists>r. findTokenCreationBlock failingProvider ''0x024a'' [] = Some r)"
  using search_loop_terminates
     [of "\<lparr>lowBlock = 0, highBlock = 10, foundBlock = None\<rparr>" failingProvider "''0x024a''" "[]"]
  by (simp add: failingProvider_def)

text \<open>
  An instance of the rounding: with \<open>lowBlock = 2^52\<close> and \<open>highBlock = 2^53 - 1\<close> the
  sum is not a double, and the block probed is one above the exact midpoint.
\<close>

lemma midBlock_rounded_example:
  "roundDouble (4503599627370496 + 9007199254740991) div 2 = 6755399441055744"
  "(4503599627370496 + 9007199254740991) div 2 = (6755399441055743 :: int)"
  by (simp_all add: roundDouble_def roundNat_def ulp.simps Let_def)

section \<open>Properties of the metadata reader\<close>

lemma queriesIssued_append: "queriesIssued (xs @ ys) = queriesIssued xs @ queriesIssued ys"
  by (induction xs rule: queriesIssued.induct) auto

lemma proposed_queries:
  assumes "blockNumberAt p hist = Inr currentBlock"
  shows "queriesIssued (snd (getTokenMetadata_proposed p addr fromBlockArg hist))
           = queriesIssued hist
             @ [(case fromBlockArg of None \<Rightarrow> max 0 (currentBlock - 499) | Some b \<Rightarrow> b,
                 Some (min currentBlock
                        ((case fromBlockArg of None \<Rightarrow> max 0 (currentBlock - 499) | Some b \<Rightarrow> b)
                          + 499)))]"
  using assms
  by (simp add: getTokenMetadata_proposed_def getBlockNumber_def queryFilter_def Let_def
        queriesIssued_append split: sum.splits option.splits)

text \<open>
  The rewritten reader, called without \<^verbatim>\<open>fromBlock\<close>, queries exactly the most
  recent 500 blocks (fewer on a chain shorter than that).
\<close>

lemma proposed_default_window:
  assumes "blockNumberAt p hist = Inr currentBlock" and "0 \<le> currentBlock"
  shows "queriesIssued (snd (getTokenMetadata_proposed p addr None hist))
           = queriesIssued hist @ [(max 0 (currentBlock - 499), Some currentBlock)]"
    and "blocksSpanned currentBlock (max 0 (currentBlock - 499), Some currentBlock) \<le> 500"
  using proposed_queries [OF assms(1), of addr None] assms(2)
  by (auto simp: blocksSpanned_def min_def max_def)

text \<open>
  Claim C3. Called without an explicit \<^verbatim>\<open>fromBlock\<close>, \<^verbatim>\<open>getTokenMetadata\<close>
  should scan only the most recent 500 blocks (the provider's limit per query). The
  shipped function has no such parameter and always looks back 10000 blocks: at head
  block 20000 its single query starts at block 10000 and runs to the latest block,
  10001 blocks in all.
\<close>

theorem shipped_metadata_scans_10001_blocks:
  "queriesIssued (snd (getTokenMetadata (fakeBackend 20000 []) ''0x024a'' [])) = [(10000, None)]
   \<and> blocksSpanned 20000 (10000, None) = 10001"
  by (simp add: getTokenMetadata_def fakeBackend_def getBlockNumber_def queryFilter_def
        eventsInRange_def blocksSpanned_def)




text \<open>
  Claim C4, as stated, fails: a non-empty result whose last element has no decoded
  arguments makes the shipped reader throw instead of returning metadata.
\<close>

theorem metadata_last_event_counterexample:
  "[\<lparr>blockNumber = 15000, args = None\<rparr>] \<noteq> []
   \<and> eventsAt (fakeBackend 20000 [\<lparr>blockNumber = 15000, args = None\<rparr>]) [GetBlockNumber] 10000 None
       = Inr [\<lparr>blockNumber = 15000, args = None\<rparr>]
   \<and> fst (getTokenMetadata (fakeBackend 20000 [\<lparr>blockNumber = 15000, args = None\<rparr>]) ''0x024a'' [])
       = Inl (Error ''Creation event for token 0x024a has no arguments'')"
  by (simp add: getTokenMetadata_def fakeBackend_def getBlockNumber_def queryFilter_def
        eventsInRange_def)

text \<open>
  Claim C4, amended. For every result list of the creation-event query in the shipped
  \<^verbatim>\<open>getTokenMetadata\<close>: an empty list fails with the error "No creation event
  found for token: ..." (the reader's not-found failure); a non-empty list whose last
  element carries arguments returns the metadata of that last element; a non-empty
  list whose last element has no arguments fails with "... has no arguments". When the
  list is ascending by block, its last element has the highest block of all, so of two
  events at different blocks the later one wins.
\<close>

theorem metadata_from_last_event:
  assumes "blockNumberAt p hist = Inr currentBlock"
      and "eventsAt p (hist @ [GetBlockNumber]) (max 0 (currentBlock - 10000)) None = Inr events"
  shows "(events = [] \<longrightarrow>
            fst (getTokenMetadata p addr hist)
              = Inl (Error (''No creation event found for token: '' @ addr)))
         \<and> (events \<noteq> [] \<longrightarrow> (\<forall>a. args (last events) = Some a \<longrightarrow>
            fst (getTokenMetadata p addr hist) = Inr (metadataOf a)))
         \<and> (events \<noteq> [] \<longrightarrow> args (last events) = None \<longrightarrow>
            fst (getTokenMetadata p addr hist)
              = Inl (Error (''Creation event for token '' @ addr @ '' has no arguments'')))
         \<and> (events \<noteq> [] \<longrightarrow> sorted (map blockNumber events) \<longrightarrow>
              (\<forall>e \<in> set events. blockNumber e \<le> blockNumber (last events)))"
proof -
  have last: "events \<noteq> [] \<Longrightarrow> events ! (length events - 1) = last events"
    by (simp add: last_conv_nth)
  have top: "events \<noteq> [] \<Longrightarrow> sorted (map blockNumber events) \<Longrightarrow>
               \<forall>e \<in> set events. blockNumber e \<le> blockNumber (last events)"
  proof (induction events)
    case Nil
    then show ?case by simp
  next
    case (Cons x xs)
    then show ?case by (cases xs) auto
  qed
  show ?thesis
    using assms last top
    by (auto simp: getTokenMetadata_def getBlockNumber_def queryFilter_def Let_def metadataOf_def)
qed

theorem metadata_from_last_event_witness:
  "fst (getTokenMetadata
         (fakeBackend 20000 [\<lparr>blockNumber = 15000, args = Some mochi\<rparr>,
                             \<lparr>blockNumber = 15007, args = Some inu\<rparr>]) ''0x024a'' [])
     = Inr (metadataOf inu)
   \<and> fst (getTokenMetadata (fakeBackend 20000 []) ''0x024a'' [])
     = Inl (Error ''No creation event found for token: 0x024a'')"
  using metadata_from_last_event
     [of "fakeBackend 20000 [\<lparr>blockNumber = 15000, args = Some mochi\<rparr>,
                             \<lparr>blockNumber = 15007, args = Some inu\<rparr>]" "[]" 20000
         "[\<lparr>blockNumber = 15000, args = Some mochi\<rparr>, \<lparr>blockNumber = 15007, args = Some inu\<rparr>]"
         "''0x024a''"]
    metadata_from_last_event [of "fakeBackend 20000 []" "[]" 20000 "[]" "''0x024a''"]
  by (simp add: fakeBackend_def eventsInRange_def)

section \<open>Properties of the error classification\<close>

text \<open>
  Claim C7, as stated, fails. The rules are tried in a fixed order: a message that
  contains both "insufficient funds" and "User denied" is classified
  \<open>INSUFFICIENT_FUNDS\<close>, and an upload error with status 413 whose message contains
  "unauthorized" is classified \<open>AUTHENTICATION_ERROR\<close>.
\<close>

theorem classification_counterexample:
  "str_includes ''insufficient funds: User denied transaction'' ''User denied''
   \<and> parseBlockchainError (JObj (JStr ''insufficient funds: User denied transaction'') None)
       = Inr \<lparr>type = INSUFFICIENT_FUNDS,
               message = ''You do not have enough RON to complete this transaction. Make sure you have enough for gas fees plus the creation fee and initial liquidity.'',
               originalError = JObj (JStr ''insufficient funds: User denied transaction'') None\<rparr>
   \<and> statusOf (JObj (JStr ''unauthorized'') (Some 413)) = Some 413
   \<and> parseUploadError (JObj (JStr ''unauthorized'') (Some 413))
       = Inr \<lparr>type = AUTHENTICATION_ERROR,
               message = ''Authentication failed. Please make sure you are logged in to tama.meme.'',
               originalError = JObj (JStr ''unauthorized'') (Some 413)\<rparr>"
  by (simp add: parseBlockchainError_def parseUploadError_def js_or_def str_includes_def
        sublist_Cons_right)

text \<open>
  Claim C7, amended. Let \<open>msg\<close> be the message string the classifier reads (the
  error's message, or the empty string when it has none). If \<open>msg\<close> contains
  "insufficient funds", \<^verbatim>\<open>parseBlockchainError\<close> returns kind
  \<open>INSUFFICIENT_FUNDS\<close>; if it contains "User denied" and not "insufficient funds",
  kind \<open>USER_REJECTED\<close>; an upload error with status 413 whose message does not
  contain "unauthorized" is classified \<open>UPLOAD_FAILED\<close> by
  \<^verbatim>\<open>parseUploadError\<close>; and when \<open>msg\<close> contains none of the eight patterns of
  \<^verbatim>\<open>parseBlockchainError\<close>, the result is \<open>UNKNOWN_ERROR\<close> with the human message
  "An unexpected error occurred: " followed by \<open>msg\<close>, and the raw error kept as
  \<open>originalError\<close>.
\<close>

theorem classification_by_priority:
  assumes "js_or (messageOf error) (JStr []) = JStr msg"
  shows "(str_includes msg ''insufficient funds'' \<longrightarrow>
            (\<exists>r. parseBlockchainError error = Inr r \<and> type r = INSUFFICIENT_FUNDS))
       \<and> (str_includes msg ''User denied'' \<and> \<not> str_includes msg ''insufficient funds'' \<longrightarrow>
            (\<exists>r. parseBlockchainError error = Inr r \<and> type r = USER_REJECTED))
       \<and> (statusOf error = Some 413 \<and> \<not> str_includes msg ''unauthorized'' \<longrightarrow>
            (\<exists>r. parseUploadError error = Inr r \<and> type r = UPLOAD_FAILED))
       \<and> (\<not> str_includes msg ''insufficient funds''
            \<and> \<not> str_includes msg ''user rejected'' \<and> \<not> str_includes msg ''User denied''
            \<and> \<not> str_includes msg ''network'' \<and> \<not> str_includes msg ''timeout''
            \<and> \<not> str_includes msg ''InsufficientOutput'' \<and> \<not> str_includes msg ''InvalidAmountIn''
            \<and> \<not> str_includes msg ''InvalidTokenMetadata'' \<longrightarrow>
            parseBlockchainError error
              = Inr \<lparr>type = UNKNOWN_ERROR,
                      message = ''An unexpected error occurred: '' @ msg,
                      originalError = error\<rparr>)"
  using assms
  by (simp add: parseBlockchainError_def parseUploadError_def)

theorem classification_by_priority_witness:
  "(\<exists>r. parseBlockchainError (JObj (JStr ''insufficient funds for gas'') None) = Inr r
        \<and> type r = INSUFFICIENT_FUNDS)
   \<and> (\<exists>r. parseBlockchainError (JObj (JStr ''MetaMask: User denied signature'') None) = Inr r
        \<and> type r = USER_REJECTED)
   \<and> (\<exists>r. parseUploadError (JObj (JStr ''Payload'') (Some 413)) = Inr r \<and> type r = UPLOAD_FAILED)
   \<and> parseBlockchainError (JObj (JStr ''nonce too low'') None)
       = Inr \<lparr>type = UNKNOWN_ERROR,
               message = ''An unexpected error occurred: nonce too low'',
               originalError = JObj (JStr ''nonce too low'') None\<rparr>"
  using classification_by_priority
          [of "JObj (JStr ''insufficient funds for gas'') None" "''insufficient funds for gas''"]
        classification_by_priority
          [of "JObj (JStr ''MetaMask: User denied signature'') None"
              "''MetaMask: User denied signature''"]
        classification_by_priority [of "JObj (JStr ''Payload'') (Some 413)" "''Payload''"]
        classification_by_priority [of "JObj (JStr ''nonce too low'') None" "''nonce too low''"]
  by (simp add: js_or_def str_includes_def sublist_Cons_right)

text \<open>
  Claim C10, as stated, fails: an error object whose \<^verbatim>\<open>message\<close> is the number 42
  makes \<^verbatim>\<open>parseBlockchainError\<close> throw a \<^verbatim>\<open>TypeError\<close>.
\<close>

theorem parseBlockchainError_throws_counterexample:
  "parseBlockchainError (JObj (JNum 42) None)
     = Inl (TypeError ''errorMessage.includes is not a function'')"
  by (simp add: parseBlockchainError_def js_or_def)

text \<open>
  Claim C10, amended. For every input whose \<^verbatim>\<open>message\<close> is absent, falsy or a
  string (in particular \<^verbatim>\<open>null\<close>, \<^verbatim>\<open>undefined\<close>, primitives and objects
  without a message), \<^verbatim>\<open>parseBlockchainError\<close> returns a
  \<^verbatim>\<open>TokenCreationError\<close> and does not throw; when the message is absent or falsy it
  is treated as the empty string and the result is \<open>UNKNOWN_ERROR\<close>.
\<close>

theorem parseBlockchainError_total_on_strings:
  assumes "\<not> truthy (messageOf error) \<or> (\<exists>s. messageOf error = JStr s)"
  shows "(\<exists>r. parseBlockchainError error = Inr r)
       \<and> (\<not> truthy (messageOf error) \<longrightarrow>
            parseBlockchainError error
              = Inr \<lparr>type = UNKNOWN_ERROR,
                      message = ''An unexpected error occurred: '',
                      originalError = error\<rparr>)"
proof -
  have empty: "\<not> str_includes [] (c # cs)" for c cs
    by (simp add: str_includes_def)
  show ?thesis
    using assms
    by (auto simp: parseBlockchainError_def js_or_def empty)
qed

theorem parseBlockchainError_total_on_strings_witness:
  "parseBlockchainError JNull
     = Inr \<lparr>type = UNKNOWN_ERROR, message = ''An unexpected error occurred: '',
             originalError = JNull\<rparr>
   \<and> parseBlockchainError JUndefined
     = Inr \<lparr>type = UNKNOWN_ERROR, message = ''An unexpected error occurred: '',
             originalError = JUndefined\<rparr>
   \<and> parseBlockchainError (JObj JUndefined None)
     = Inr \<lparr>type = UNKNOWN_ERROR, message = ''An unexpected error occurred: '',
             originalError = JObj JUndefined None\<rparr>
   \<and> (\<exists>r. parseBlockchainError (JObj (JStr ''execution reverted'') None) = Inr r)"
  using parseBlockchainError_total_on_strings [of JNull]
        parseBlockchainError_total_on_strings [of JUndefined]
        parseBlockchainError_total_on_strings [of "JObj JUndefined None"]
        parseBlockchainError_total_on_strings [of "JObj (JStr ''execution reverted'') None"]
  by simp

section \<open>Properties of token creation\<close>

subsection \<open>Decimal numerals determine the integer\<close>

lemma digitsValue_snoc: "digitsValue (s @ [c]) = 10 * digitsValue s + digitValue c"
  by (simp add: digitsValue_def)

lemma digitValue_char_of: "d < 10 \<Longrightarrow> digitValue (char_of (48 + d)) = d"
  by (simp add: digitValue_def)

lemma digitsValue_nat_toString: "digitsValue (nat_toString n) = n"
proof (induction n rule: nat_toString.induct)
  case (1 n)
  show ?case
  proof (cases "n < 10")
    case True
    then show ?thesis
      by (subst nat_toString.simps) (simp add: digitsValue_def digitValue_char_of)
  next
    case False
    then have "digitsValue (nat_toString n) = 10 * digitsValue (nat_toString (n div 10)) + n mod 10"
      by (subst nat_toString.simps) (simp add: digitsValue_snoc digitValue_char_of)
    with False 1 show ?thesis by simp
  qed
qed

lemma nat_toString_digits: "nat_toString n \<noteq> [] \<and> list_all isDigit (nat_toString n)"
proof (induction n rule: nat_toString.induct)
  case (1 n)
  have d: "isDigit (char_of (48 + d))" if "d < 10" for d :: nat
    using that by (simp add: isDigit_def)
  show ?case
  proof (cases "n < 10")
    case True
    then show ?thesis
      by (subst (1 2) nat_toString.simps) (simp add: d)
  next
    case False
    then show ?thesis
      using 1 by (subst (1 2) nat_toString.simps) (simp add: d)
  qed
qed

lemma bigint_toString_inj: "bigint_toString x = bigint_toString y \<Longrightarrow> x = y"
proof -
  assume eq: "bigint_toString x = bigint_toString y"
  have nd: "\<not> isDigit (CHR ''-'')" by (simp add: isDigit_def)
  have hdd: "hd (nat_toString n) \<noteq> CHR ''-''" for n
    using nat_toString_digits [of n] nd by (cases "nat_toString n") auto
  have nat_inj: "nat_toString a = nat_toString b \<Longrightarrow> a = b" for a b
    by (metis digitsValue_nat_toString)
  show ?thesis
  proof (cases "x < 0")
    case True
    show ?thesis
    proof (cases "y < 0")
      case yneg: True
      with True eq have "nat (- x) = nat (- y)"
        by (auto simp: bigint_toString_def dest: nat_inj)
      with True yneg show ?thesis by simp
    next
      case False
      with True eq have "CHR ''-'' # nat_toString (nat (- x)) = nat_toString (nat y)"
        by (simp add: bigint_toString_def)
      then have "hd (nat_toString (nat y)) = CHR ''-''"
        by (metis list.sel(1))
      with hdd [of "nat y"] show ?thesis by simp
    qed
  next
    case False
    show ?thesis
    proof (cases "y < 0")
      case True
      with False eq have "nat_toString (nat x) = CHR ''-'' # nat_toString (nat (- y))"
        by (simp add: bigint_toString_def)
      then have "hd (nat_toString (nat x)) = CHR ''-''"
        by simp
      with hdd [of "nat x"] show ?thesis by simp
    next
      case ynn: False
      with False eq have "nat x = nat y"
        by (auto simp: bigint_toString_def dest: nat_inj)
      with False ynn show ?thesis by simp
    qed
  qed
qed

subsection \<open>Address extraction\<close>

text \<open>
  The version under src/token-creation returns the emitting address of the first
  creation log of the mined receipt, and no address when there is none.
\<close>

lemma submissions_append: "submissions (xs @ ys) = submissions xs @ submissions ys"
  by (induction xs rule: submissions.induct) auto

lemma firstCreationLog_first:
  assumes "\<forall>e \<in> set before. \<not> isCreationLog e" and "isCreationLog entry"
  shows "firstCreationLog (before @ entry # after) = Some (address entry)"
  using assms by (induction before) (auto simp: isCreationLog_def)

lemma firstCreationLog_none:
  assumes "\<forall>e \<in> set ls. \<not> isCreationLog e"
  shows "firstCreationLog ls = None"
  using assms by (induction ls) (auto simp: isCreationLog_def)

lemma createTokenOnContract_extracts:
  assumes "creationFeeAt c hist = Inr fee"
      and "parseEther (initAmountIn tokenInfo) = Inr valueAmount"
      and "\<And>sub. createNewTokenAt c (hist @ [CreationFee]) sub = Inr tx"
      and "\<And>h. waitAt c h tx = Inr (Some r)"
  shows "fst (createTokenOnContract parseEther c tokenInfo hist)
           = Inr \<lparr>txHash = tx, tokenAddress = firstCreationLog (logs r)\<rparr>"
  using assms
  by (simp add: createTokenOnContract_def creationFee_call_def createNewToken_def wait_def Let_def)

text \<open>
  Claim C5. \<^verbatim>\<open>createTokenOnContract\<close> should return as \<^verbatim>\<open>tokenAddress\<close> the
  emitting address of the first receipt log whose \<^verbatim>\<open>topics[1]\<close> is the zero hash.
  On the receipt with three logs, one of them \<^verbatim>\<open>[X, ZeroHash]\<close> at \<^verbatim>\<open>0xAAA\<close>,
  the version under src/token-creation returns \<^verbatim>\<open>0xAAA\<close>, but the copy in
  "code snippets/createToken.ts", which does not await \<^verbatim>\<open>tx.wait()\<close>, returns no
  address.
\<close>

theorem snippet_never_extracts_address:
  "firstCreationLog (logs threeLogs) = Some ''0xAAA''
   \<and> fst (createTokenOnContract (\<lambda>s. Inr 100) (fixtureContract 100 threeLogs) rakun [])
       = Inr \<lparr>txHash = ''0x7e57'', tokenAddress = Some ''0xAAA''\<rparr>
   \<and> fst (createTokenOnContract_snippet (\<lambda>s. Inr 100) (fixtureContract 100 threeLogs) rakun [])
       = Inr \<lparr>txHash = ''0x7e57'', tokenAddress = None\<rparr>"
  by (simp add: createTokenOnContract_def createTokenOnContract_snippet_def fixtureContract_def
        creationFee_call_def createNewToken_def wait_def threeLogs_def ZeroHash_def promiseLogs_def)

text \<open>
  Claim C6. For every creation fee returned by the contract and every amount string
  that \<^verbatim>\<open>parseEther\<close> accepts, the transaction is submitted with the value
  \<open>creationFee + parseEther initAmountIn\<close>, written as a decimal numeral that denotes
  exactly this integer; both copies of \<^verbatim>\<open>createTokenOnContract\<close> do so. (Fee 100
  and an amount parsing to 100 base units attach 200.)
\<close>

theorem payment_is_fee_plus_amount:
  assumes "creationFeeAt c hist = Inr fee"
      and "parseEther (initAmountIn tokenInfo) = Inr valueAmount"
  shows "map overrideValue (submissions (snd (createTokenOnContract parseEther c tokenInfo hist)))
           = map overrideValue (submissions hist) @ [bigint_toString (fee + valueAmount)]
       \<and> map overrideValue
             (submissions (snd (createTokenOnContract_snippet parseEther c tokenInfo hist)))
           = map overrideValue (submissions hist) @ [bigint_toString (fee + valueAmount)]
       \<and> (\<forall>v. bigint_toString v = bigint_toString (fee + valueAmount) \<longrightarrow> v = fee + valueAmount)"
proof -
  have a: "map overrideValue
             (submissions (snd (createTokenOnContract parseEther c tokenInfo hist)))
           = map overrideValue (submissions hist) @ [bigint_toString (fee + valueAmount)]"
    using assms
    by (simp add: createTokenOnContract_def creationFee_call_def createNewToken_def wait_def
          Let_def submissions_append split: sum.splits prod.splits)
  have b: "map overrideValue
             (submissions (snd (createTokenOnContract_snippet parseEther c tokenInfo hist)))
           = map overrideValue (submissions hist) @ [bigint_toString (fee + valueAmount)]"
    using assms
    by (simp add: createTokenOnContract_snippet_def creationFee_call_def createNewToken_def
          wait_def Let_def submissions_append split: sum.splits prod.splits)
  show ?thesis
    using a b bigint_toString_inj by blast
qed

theorem payment_is_fee_plus_amount_witness:
  "referenceParseUnits 18 (initAmountIn rakun) = Inr 100
   \<and> map overrideValue
        (submissions (snd (createTokenOnContract (referenceParseUnits 18)
                             (fixtureContract 100 threeLogs) rakun []))) = [''200'']
   \<and> map overrideValue
        (submissions (snd (createTokenOnContract_snippet (referenceParseUnits 18)
                             (fixtureContract 100 threeLogs) rakun []))) = [''200'']"
proof -
  have p: "referenceParseUnits 18 (initAmountIn rakun) = Inr 100"
    by code_simp
  have f: "creationFeeAt (fixtureContract 100 threeLogs) [] = Inr 100"
    by (simp add: fixtureContract_def)
  have s: "bigint_toString (100 + 100) = ''200''"
    by code_simp
  show ?thesis
    using payment_is_fee_plus_amount
            [where c = "fixtureContract 100 threeLogs" and hist = "[]" and fee = 100
               and parseEther = "referenceParseUnits 18" and tokenInfo = rakun
               and valueAmount = 100] f p s
    by simp
qed

text \<open>The reference parser on a few strings, among them the two fixtures.\<close>

lemma referenceParseUnits_examples:
  "referenceParseUnits 18 ''0.0000000000000001'' = Inr 100"
  "referenceParseUnits 3 ''0.1'' = Inr 100"
  "referenceParseUnits 3 ''-12.5'' = Inr (- 12500)"
  "referenceParseUnits 3 ''1.2345'' = Inl (Error ''too many decimals for format'')"
  "referenceParseUnits 3 ''1.2x'' = Inl (Error ''invalid FixedNumber string value'')"
  by code_simp+

section \<open>Properties of the price function\<close>

lemma nonfinite_division:
  "divide_number rd a (Finite 0) \<in> {PosInfinity, NegInfinity, NaN}"
  by (cases a) auto

lemma nonfinite_scaled:
  assumes "n \<in> {PosInfinity, NegInfinity, NaN}"
  shows "times_number rd n (Finite (10 ^ 18)) \<in> {PosInfinity, NegInfinity, NaN}"
  using assms by auto

lemma nonfinite_bigIntOfFloor:
  assumes "n \<in> {PosInfinity, NegInfinity, NaN}"
  shows "\<exists>msg. bigIntOfFloor n = Inl (RangeError msg)"
  using assms by auto

text \<open>
  Claim C8, as stated, fails. \<^verbatim>\<open>calculateCurrentPrice\<close> has no guard: with a zero
  \<^verbatim>\<open>virtualTokenReserve\<close> the division is carried out silently and yields
  \<^verbatim>\<open>Infinity\<close> (or \<^verbatim>\<open>NaN\<close> when the virtual ETH reserve is zero too). What is
  thrown afterwards is the \<^verbatim>\<open>RangeError\<close> of the \<^verbatim>\<open>BigInt\<close> conversion, whose
  text names the quotient.
\<close>

theorem price_divides_silently_counterexample:
  "virtualTokenReserve emptyPool = 0
   \<and> divide_number Finite (toNumber Finite (virtualEthReserve emptyPool))
                            (toNumber Finite (virtualTokenReserve emptyPool)) = PosInfinity
   \<and> price Finite emptyPool = PosInfinity
   \<and> calculateCurrentPrice Finite (\<lambda>wei. ''unused'') emptyPool
       = Inl (RangeError ''The number Infinity cannot be converted to a BigInt because it is not an integer'')
   \<and> virtualTokenReserve drainedPool = 0
   \<and> price Finite drainedPool = NaN
   \<and> calculateCurrentPrice Finite (\<lambda>wei. ''unused'') drainedPool
       = Inl (RangeError ''The number NaN cannot be converted to a BigInt because it is not an integer'')"
  by (simp add: emptyPool_def drainedPool_def price_def calculateCurrentPrice_def toNumber_def)

text \<open>
  Claim C8, amended. For every pool state whose \<^verbatim>\<open>virtualTokenReserve\<close> is zero,
  \<^verbatim>\<open>calculateCurrentPrice\<close> performs the division, which yields an infinity or
  \<^verbatim>\<open>NaN\<close>, and then fails with the \<^verbatim>\<open>RangeError\<close> that the \<^verbatim>\<open>BigInt\<close>
  conversion of that quotient throws; it returns no value. (Zero is a double:
  \<open>rd 0 = Finite 0\<close>.)
\<close>

theorem price_division_then_range_error:
  assumes "virtualTokenReserve poolInfo = 0" and "rd 0 = Finite 0"
  shows "price rd poolInfo \<in> {PosInfinity, NegInfinity, NaN}
       \<and> (\<exists>msg. bigIntOfFloor (price rd poolInfo) = Inl (RangeError msg)
                \<and> calculateCurrentPrice rd formatEther poolInfo = Inl (RangeError msg))"
proof -
  have nf: "price rd poolInfo \<in> {PosInfinity, NegInfinity, NaN}"
    unfolding price_def using assms
    by (simp only: toNumber_def of_int_0)
       (rule nonfinite_scaled [OF nonfinite_division])
  obtain msg where "bigIntOfFloor (price rd poolInfo) = Inl (RangeError msg)"
    using nonfinite_bigIntOfFloor [OF nf] by blast
  then show ?thesis
    using nf by (simp add: calculateCurrentPrice_def)
qed

theorem price_division_then_range_error_witness:
  "virtualTokenReserve emptyPool = 0
   \<and> price Finite emptyPool \<in> {PosInfinity, NegInfinity, NaN}
   \<and> (\<exists>msg. bigIntOfFloor (price Finite emptyPool) = Inl (RangeError msg)
            \<and> calculateCurrentPrice Finite (\<lambda>wei. ''unused'') emptyPool = Inl (RangeError msg))"
  using price_division_then_range_error [of emptyPool Finite "\<lambda>wei. ''unused''"]
  by (simp add: emptyPool_def)

end
